theory Spec2Isabelle
  imports Main
begin

section \<open>Python strings and exceptions\<close>

text \<open>
  The module \<^verbatim>\<open>awswrangler/_data_types.py\<close> translates between the Athena/Glue type
  vocabulary, the Arrow type vocabulary and pandas columns. A Python \<^verbatim>\<open>str\<close> is
  modelled as a \<open>string\<close> whose characters are the code points 0..255 (Latin-1), which
  covers every literal the module compares against. Only the class of an exception is
  kept, not its message.
\<close>

datatype error =
    UnsupportedType
  | UndetectedType
  | ValueError
  | IndexError
  | KeyError
  | TypeError
  | OverflowError
  | InvalidOperation

definition lower_char :: "char \<Rightarrow> char" where
  \<comment> \<open>\<^verbatim>\<open>str.lower\<close> on one code point below 256: A-Z and the accented capitals
      0xC0-0xDE (the multiplication sign 0xD7 apart) move up by 32.\<close>
  "lower_char c =
     (let n = (of_char c :: nat)
      in if (65 \<le> n \<and> n \<le> 90) \<or> (192 \<le> n \<and> n \<le> 222 \<and> n \<noteq> 215)
         then char_of (n + 32) else c)"

definition lower :: "string \<Rightarrow> string" where
  "lower s = map lower_char s"

definition startswith :: "string \<Rightarrow> string \<Rightarrow> bool" where
  \<comment> \<open>\<^verbatim>\<open>s.startswith(p)\<close>\<close>
  "startswith s p = (take (length p) s = p)"

fun contains :: "string \<Rightarrow> string \<Rightarrow> bool" where
  \<comment> \<open>\<^verbatim>\<open>sub in s\<close> for two strings: \<open>sub\<close> occurs in \<open>s\<close> as a contiguous run\<close>
  "contains [] sub = (sub = [])"
| "contains (c # cs) sub = (startswith (c # cs) sub \<or> contains cs sub)"

definition py_or :: "string \<Rightarrow> string \<Rightarrow> string" where
  \<comment> \<open>\<^verbatim>\<open>a or b\<close> on strings: \<open>a\<close> when it is non-empty (truthy), else \<open>b\<close>\<close>
  "py_or a b = (if a \<noteq> [] then a else b)"

function replace :: "string \<Rightarrow> string \<Rightarrow> string \<Rightarrow> string" where
  \<comment> \<open>\<^verbatim>\<open>s.replace(old, new)\<close> for a non-empty \<open>old\<close>: left to right, non-overlapping\<close>
  "replace old new [] = []"
| "replace old new (c # cs) =
     (if old \<noteq> [] \<and> startswith (c # cs) old
      then new @ replace old new (drop (length old) (c # cs))
      else c # replace old new cs)"
  by pat_completeness auto
termination
  by (relation "measure (\<lambda>(old, new, s). length s)") auto

fun split :: "char \<Rightarrow> string \<Rightarrow> string list" where
  \<comment> \<open>\<^verbatim>\<open>s.split(sep=c)\<close> for a one-character separator: never an empty list\<close>
  "split sep [] = [[]]"
| "split sep (c # cs) =
     (if c = sep then [] # split sep cs
      else (case split sep cs of [] \<Rightarrow> [[c]] | w # ws \<Rightarrow> (c # w) # ws))"

fun join :: "string \<Rightarrow> string list \<Rightarrow> string" where
  \<comment> \<open>\<^verbatim>\<open>sep.join(xs)\<close>\<close>
  "join sep [] = []"
| "join sep [x] = x"
| "join sep (x # y # ys) = x @ sep @ join sep (y # ys)"

subsection \<open>\<^verbatim>\<open>int(str)\<close> and \<^verbatim>\<open>str(int)\<close>\<close>

definition is_space :: "char \<Rightarrow> bool" where
  \<comment> \<open>the code points below 256 that \<^verbatim>\<open>int\<close> skips around a literal\<close>
  "is_space c = ((of_char c :: nat) \<in> {9, 10, 11, 12, 13, 32, 133, 160})"

definition strip :: "string \<Rightarrow> string" where
  "strip s = rev (dropWhile is_space (rev (dropWhile is_space s)))"

definition is_digit :: "char \<Rightarrow> bool" where
  "is_digit c = (48 \<le> (of_char c :: nat) \<and> (of_char c :: nat) \<le> 57)"

definition digit_val :: "char \<Rightarrow> nat" where
  "digit_val c = of_char c - 48"

fun parse_digits :: "bool \<Rightarrow> nat \<Rightarrow> string \<Rightarrow> nat option" where
  \<comment> \<open>decimal digits, single underscores allowed between two digits; the flag says
      that the previous character was a digit\<close>
  "parse_digits prev acc [] = (if prev then Some acc else None)"
| "parse_digits prev acc (c # cs) =
     (if is_digit c then parse_digits True (acc * 10 + digit_val c) cs
      else if c = CHR ''_'' \<and> prev then parse_digits False acc cs
      else None)"

definition py_int :: "string \<Rightarrow> int option" where
  \<comment> \<open>\<^verbatim>\<open>int(s)\<close>; \<open>None\<close> stands for the ValueError of a malformed literal\<close>
  "py_int s =
     (case strip s of
        [] \<Rightarrow> None
      | c # cs \<Rightarrow>
          if c = CHR ''-'' then map_option (\<lambda>n. - int n) (parse_digits False 0 cs)
          else if c = CHR ''+'' then map_option int (parse_digits False 0 cs)
          else map_option int (parse_digits False 0 (c # cs)))"

definition digit_char :: "nat \<Rightarrow> char" where
  "digit_char d = char_of (48 + d)"

function str_nat :: "nat \<Rightarrow> string" where
  "str_nat n = (if n < 10 then [digit_char n] else str_nat (n div 10) @ [digit_char (n mod 10)])"
  by pat_completeness auto
termination
  by (relation "measure id") auto

definition str_int :: "int \<Rightarrow> string" where
  \<comment> \<open>\<^verbatim>\<open>str(i)\<close>, also what an f-string renders for an integer\<close>
  "str_int i = (if i < 0 then CHR ''-'' # str_nat (nat (- i)) else str_nat (nat i))"

section \<open>Type Mapper\<close>

datatype time_unit = Seconds | Millis | Micros | Nanos

text \<open>
  The Arrow types the module can meet. \<open>pa_other\<close> stands for every Arrow type that none
  of the \<^verbatim>\<open>pa.types.is_*\<close> tests of \<^verbatim>\<open>pyarrow2athena\<close> recognises (unsigned integers,
  time-of-day, duration, the large variants, ...), named by its rendering.
  \<open>pa_decimal128 p s\<close> is the decimal type of precision \<open>p\<close> and scale \<open>s\<close>; the library's
  constructor \<^verbatim>\<open>pa.decimal128\<close>, which builds it, checks its arguments first.
\<close>

datatype pa_type =
    pa_int8 | pa_int16 | pa_int32 | pa_int64
  | pa_float32 | pa_float64
  | pa_bool
  | pa_string
  | pa_timestamp time_unit
  | pa_date32 | pa_date64
  | pa_binary
  | pa_dictionary pa_type
  | pa_decimal128 int int
  | pa_list pa_type
  | pa_struct "(string \<times> pa_type) list"
  | pa_null
  | pa_other string

definition c_int :: "int \<Rightarrow> bool" where
  \<comment> \<open>the integers that fit a C \<^verbatim>\<open>int\<close>\<close>
  "c_int i = (- 2147483648 \<le> i \<and> i \<le> 2147483647)"

definition decimal128 :: "int \<Rightarrow> int \<Rightarrow> error + pa_type" where
  \<comment> \<open>\<^verbatim>\<open>pa.decimal128(precision, scale)\<close>: OverflowError for an argument that does not fit
      a C \<^verbatim>\<open>int\<close>, ValueError for a precision outside 1..38\<close>
  "decimal128 precision scale =
     (if \<not> c_int precision \<or> \<not> c_int scale then Inl OverflowError
      else if precision < 1 \<or> 38 < precision then Inl ValueError
      else Inr (pa_decimal128 precision scale))"

definition parse_decimal_args :: "string \<Rightarrow> error + pa_type" where
  \<comment> \<open>lines 42-43: strip \<^verbatim>\<open>decimal(\<close> and \<^verbatim>\<open>)\<close>, split at the commas, unpack exactly two
      fields, convert both with \<^verbatim>\<open>int\<close>, build the type\<close>
  "parse_decimal_args dtype =
     (case split CHR '','' (replace '')'' '''' (replace ''decimal('' '''' dtype)) of
        [precision, scale] \<Rightarrow>
          (case py_int precision of
             None \<Rightarrow> Inl ValueError
           | Some p \<Rightarrow>
               (case py_int scale of
                  None \<Rightarrow> Inl ValueError
                | Some s \<Rightarrow> decimal128 p s))
      | _ \<Rightarrow> Inl ValueError)"

definition athena2pyarrow :: "string \<Rightarrow> error + pa_type" where
  "athena2pyarrow dtype0 =
     (let dtype = lower dtype0
      in if dtype = ''tinyint'' then Inr pa_int8
         else if dtype = ''smallint'' then Inr pa_int16
         else if dtype \<in> set [''int'', ''integer''] then Inr pa_int32
         else if dtype = ''bigint'' then Inr pa_int64
         else if dtype = ''float'' then Inr pa_float32
         else if dtype = ''double'' then Inr pa_float64
         else if dtype = ''boolean'' then Inr pa_bool
         else if dtype \<in> set [''string'', ''char'', ''varchar'', ''array'', ''row'', ''map'']
           then Inr pa_string
         else if dtype = ''timestamp'' then Inr (pa_timestamp Nanos)
         else if dtype = ''date'' then Inr pa_date32
         else if contains (py_or ''binary'' ''varbinary'') dtype then Inr pa_binary
         else if startswith dtype ''decimal'' then parse_decimal_args dtype
         else Inl UnsupportedType)"

fun pyarrow2athena :: "pa_type \<Rightarrow> error + string"
  and pyarrow2athena_fields :: "(string \<times> pa_type) list \<Rightarrow> error + string list" where
  "pyarrow2athena pa_int8 = Inr ''tinyint''"
| "pyarrow2athena pa_int16 = Inr ''smallint''"
| "pyarrow2athena pa_int32 = Inr ''int''"
| "pyarrow2athena pa_int64 = Inr ''bigint''"
| "pyarrow2athena pa_float32 = Inr ''float''"
| "pyarrow2athena pa_float64 = Inr ''double''"
| "pyarrow2athena pa_bool = Inr ''boolean''"
| "pyarrow2athena pa_string = Inr ''string''"
| "pyarrow2athena (pa_timestamp u) = Inr ''timestamp''"
| "pyarrow2athena pa_date32 = Inr ''date''"
| "pyarrow2athena pa_date64 = Inr ''date''"
| "pyarrow2athena pa_binary = Inr ''binary''"
| "pyarrow2athena (pa_dictionary value_type) = pyarrow2athena value_type"
| "pyarrow2athena (pa_decimal128 precision scale) =
     Inr (''decimal('' @ str_int precision @ '','' @ str_int scale @ '')'')"
| "pyarrow2athena (pa_list value_type) =
     (case pyarrow2athena value_type of
        Inl e \<Rightarrow> Inl e
      | Inr s \<Rightarrow> Inr (''array<'' @ s @ ''>''))"
| "pyarrow2athena (pa_struct fields) =
     (case pyarrow2athena_fields fields of
        Inl e \<Rightarrow> Inl e
      | Inr xs \<Rightarrow> Inr (''struct<'' @ join '', '' xs @ ''>''))"
| "pyarrow2athena pa_null = Inl UndetectedType"
| "pyarrow2athena (pa_other n) = Inl UnsupportedType"
| "pyarrow2athena_fields [] = Inr []"
| "pyarrow2athena_fields ((name, ty) # fs) =
     (case pyarrow2athena ty of
        Inl e \<Rightarrow> Inl e
      | Inr s \<Rightarrow>
          (case pyarrow2athena_fields fs of
             Inl e \<Rightarrow> Inl e
           | Inr xs \<Rightarrow> Inr ((name @ '': '' @ s) # xs)))"

definition athena2pandas :: "string \<Rightarrow> error + string" where
  "athena2pandas dtype0 =
     (let dtype = lower dtype0
      in if dtype = ''tinyint'' then Inr ''Int8''
         else if dtype = ''smallint'' then Inr ''Int16''
         else if dtype \<in> set [''int'', ''integer''] then Inr ''Int32''
         else if dtype = ''bigint'' then Inr ''Int64''
         else if dtype = ''float'' then Inr ''float32''
         else if dtype = ''double'' then Inr ''float64''
         else if dtype = ''boolean'' then Inr ''boolean''
         else if dtype \<in> set [''string'', ''char'', ''varchar''] then Inr ''string''
         else if dtype \<in> set [''timestamp'', ''timestamp with time zone'']
           then Inr ''datetime64''
         else if dtype = ''date'' then Inr ''date''
         else if startswith dtype ''decimal'' then Inr ''decimal''
         else if dtype \<in> set [''binary'', ''varbinary''] then Inr ''bytes''
         else if dtype = ''array'' then Inr ''list''
         else Inl UnsupportedType)"

definition roundtrip :: "string \<Rightarrow> error + string" where
  \<comment> \<open>\<^verbatim>\<open>pyarrow2athena(athena2pyarrow(tag))\<close>\<close>
  "roundtrip tag = (case athena2pyarrow tag of Inl e \<Rightarrow> Inl e | Inr t \<Rightarrow> pyarrow2athena t)"

definition decimal_tag :: "nat \<Rightarrow> nat \<Rightarrow> string" where
  \<comment> \<open>the canonical Athena spelling \<^verbatim>\<open>decimal(p,s)\<close> of a decimal type\<close>
  "decimal_tag p s = ''decimal('' @ str_nat p @ '','' @ str_nat s @ '')''"

declare str_nat.simps [simp del]
declare replace.simps [simp del]

section \<open>Dictionaries\<close>

text \<open>
  A Python \<^verbatim>\<open>dict\<close> keeps its keys in insertion order: a list of key-value pairs with
  distinct keys. Assigning to a key that is present replaces the value where it stands;
  assigning to a new key appends it.
\<close>

type_synonym ('k, 'v) dict = "('k \<times> 'v) list"

fun dict_set :: "('k, 'v) dict \<Rightarrow> 'k \<Rightarrow> 'v \<Rightarrow> ('k, 'v) dict" where
  \<comment> \<open>\<^verbatim>\<open>d[k] = v\<close>\<close>
  "dict_set [] k v = [(k, v)]"
| "dict_set ((k', v') # d) k v =
     (if k' = k then (k', v) # d else (k', v') # dict_set d k v)"

definition dict_get :: "('k, 'v) dict \<Rightarrow> 'k \<Rightarrow> error + 'v" where
  \<comment> \<open>\<^verbatim>\<open>d[k]\<close>, KeyError on a missing key\<close>
  "dict_get d k = (case map_of d k of None \<Rightarrow> Inl KeyError | Some v \<Rightarrow> Inr v)"

definition dict_of_pairs :: "('k \<times> 'v) list \<Rightarrow> ('k, 'v) dict" where
  \<comment> \<open>\<^verbatim>\<open>dict(pairs)\<close>: the pairs assigned one after the other\<close>
  "dict_of_pairs ps = foldl (\<lambda>d (k, v). dict_set d k v) [] ps"

section \<open>Schema Inferrer\<close>

text \<open>
  A dataframe, as far as schema inference looks at it: the columns in declaration order,
  each with its label, the rendering \<^verbatim>\<open>str(dtype)\<close> of its pandas dtype and the Arrow type
  that the library's general inference \<^verbatim>\<open>pa.Schema.from_pandas\<close> assigns to it (the null
  type for an object column holding no value at all); and the index levels, each with its
  optional name and its inferred Arrow type.
\<close>

record column =
  col_name :: string
  col_dtype :: string
  col_arrow :: pa_type

record dataframe =
  df_columns :: "column list"
  df_index :: "(string option \<times> pa_type) list"

definition columns_of :: "dataframe \<Rightarrow> string list" where
  \<comment> \<open>\<^verbatim>\<open>list(df.columns)\<close>\<close>
  "columns_of df = map col_name (df_columns df)"

definition dtypes_to_dict :: "dataframe \<Rightarrow> (string, string) dict" where
  \<comment> \<open>\<^verbatim>\<open>df.dtypes.to_dict()\<close> with every dtype rendered by \<^verbatim>\<open>str\<close>\<close>
  "dtypes_to_dict df = dict_of_pairs (map (\<lambda>c. (col_name c, col_dtype c)) (df_columns df))"

definition select_columns :: "dataframe \<Rightarrow> string list \<Rightarrow> column list" where
  \<comment> \<open>\<^verbatim>\<open>df[cols]\<close>: for each label in turn, the columns carrying it\<close>
  "select_columns df cols =
     concat (map (\<lambda>n. filter (\<lambda>c. col_name c = n) (df_columns df)) cols)"

definition index_level_name :: "string option \<Rightarrow> nat \<Rightarrow> string list \<Rightarrow> string" where
  \<comment> \<open>the field name the library gives index level \<open>i\<close>: its own name unless that is
      missing or already the name of a converted column\<close>
  "index_level_name name i column_names =
     (case name of
        Some n \<Rightarrow>
          if n \<notin> set column_names then n else ''__index_level_'' @ str_nat i @ ''__''
      | None \<Rightarrow> ''__index_level_'' @ str_nat i @ ''__'')"

definition schema_from_pandas ::
  "dataframe \<Rightarrow> string list \<Rightarrow> bool \<Rightarrow> error + (string \<times> pa_type) list" where
  \<comment> \<open>the fields of \<^verbatim>\<open>pa.Schema.from_pandas(df=df[cols], preserve_index=index)\<close>: the
      selected columns, then, when the index is preserved, one field per index level;
      the library raises ValueError when two selected columns carry the same label\<close>
  "schema_from_pandas df cols preserve_index =
     (if \<not> distinct (map col_name (select_columns df cols)) then Inl ValueError
      else Inr
        (map (\<lambda>c. (col_name c, col_arrow c)) (select_columns df cols) @
         (if preserve_index
          then map (\<lambda>(i, (name, ty)).
                      (index_level_name name i (map col_name (select_columns df cols)), ty))
                 (enumerate 0 (df_index df))
          else [])))"

definition extension_dtype :: "string \<Rightarrow> pa_type option" where
  \<comment> \<open>lines 147-156: the pandas extension dtypes that are typed without inference\<close>
  "extension_dtype dtype =
     (if dtype = ''Int8'' then Some pa_int8
      else if dtype = ''Int16'' then Some pa_int16
      else if dtype = ''Int32'' then Some pa_int32
      else if dtype = ''Int64'' then Some pa_int64
      else if dtype = ''string'' then Some pa_string
      else None)"

definition dtype_step ::
  "string list \<Rightarrow> string list \<times> (string, pa_type option) dict \<Rightarrow> string \<times> string
     \<Rightarrow> string list \<times> (string, pa_type option) dict" where
  \<comment> \<open>one round of the loop of lines 143-158 on the state \<open>(cols, cols_dtypes)\<close>\<close>
  "dtype_step ignore_cols st item =
     (case st of (cols, cols_dtypes) \<Rightarrow>
      case item of (name, dtype) \<Rightarrow>
        if name \<in> set ignore_cols then (cols, dict_set cols_dtypes name None)
        else (case extension_dtype dtype of
                Some t \<Rightarrow> (cols, dict_set cols_dtypes name (Some t))
              | None \<Rightarrow> (cols @ [name], cols_dtypes)))"

definition field_step ::
  "dataframe \<Rightarrow> bool \<Rightarrow> (string, pa_type option) dict \<times> string list \<Rightarrow> string \<times> pa_type
     \<Rightarrow> (string, pa_type option) dict \<times> string list" where
  \<comment> \<open>one round of the loop of lines 162-166 on the state \<open>(cols_dtypes, indexes)\<close>\<close>
  "field_step df index st field =
     (case st of (cols_dtypes, indexes) \<Rightarrow>
      case field of (name, ty) \<Rightarrow>
        (dict_set cols_dtypes name (Some ty),
         if name \<notin> set (columns_of df) \<and> index then indexes @ [name] else indexes))"

fun collect_types ::
  "(string, pa_type option) dict \<Rightarrow> string list \<Rightarrow> (string, pa_type option) dict
     \<Rightarrow> error + (string, pa_type option) dict" where
  \<comment> \<open>the comprehension of line 170, \<^verbatim>\<open>{n: cols_dtypes[n] for n in names}\<close>, filling \<open>acc\<close>\<close>
  "collect_types cols_dtypes [] acc = Inr acc"
| "collect_types cols_dtypes (n # ns) acc =
     (case dict_get cols_dtypes n of
        Inl e \<Rightarrow> Inl e
      | Inr v \<Rightarrow> collect_types cols_dtypes ns (dict_set acc n v))"

definition pyarrow_types_from_pandas ::
  "dataframe \<Rightarrow> bool \<Rightarrow> string list option \<Rightarrow> error + (string, pa_type option) dict" where
  "pyarrow_types_from_pandas df index ignore_cols0 =
     (let ignore_cols = (case ignore_cols0 of None \<Rightarrow> [] | Some l \<Rightarrow> l);
          (cols, cols_dtypes) = foldl (dtype_step ignore_cols) ([], []) (dtypes_to_dict df)
      in case schema_from_pandas df cols index of
           Inl e \<Rightarrow> Inl e
         | Inr schema \<Rightarrow>
             (let (cols_dtypes', indexes) = foldl (field_step df index) (cols_dtypes, []) schema
              in collect_types cols_dtypes' (columns_of df @ indexes) []))"

fun athena_loop ::
  "(string, string) dict \<Rightarrow> (string, pa_type option) dict \<Rightarrow> (string, string) dict
     \<Rightarrow> error + (string, string) dict" where
  \<comment> \<open>the loop of lines 184-188 over \<^verbatim>\<open>pa_columns_types.items()\<close>, filling
      \<^verbatim>\<open>athena_columns_types\<close>\<close>
  "athena_loop casts [] acc = Inr acc"
| "athena_loop casts ((k, v) # items) acc =
     (case v of
        None \<Rightarrow>
          (case dict_get casts k of
             Inl e \<Rightarrow> Inl e
           | Inr t \<Rightarrow> athena_loop casts items (dict_set acc k t))
      | Some ty \<Rightarrow>
          (case pyarrow2athena ty of
             Inl e \<Rightarrow> Inl e
           | Inr t \<Rightarrow> athena_loop casts items (dict_set acc k t)))"

definition athena_types_from_pandas ::
  "dataframe \<Rightarrow> bool \<Rightarrow> (string, string) dict option \<Rightarrow> error + (string, string) dict" where
  "athena_types_from_pandas df index cast_columns =
     (let casts = (case cast_columns of None \<Rightarrow> [] | Some d \<Rightarrow> d)
      in case pyarrow_types_from_pandas df index (Some (map fst casts)) of
           Inl e \<Rightarrow> Inl e
         | Inr pa_columns_types \<Rightarrow> athena_loop casts pa_columns_types [])"

definition partition_step ::
  "string list \<Rightarrow> (string, string) dict \<times> (string, string) dict \<Rightarrow> string \<times> string
     \<Rightarrow> (string, string) dict \<times> (string, string) dict" where
  \<comment> \<open>one round of the loop of lines 204-208 on \<open>(columns_types, partitions_types)\<close>\<close>
  "partition_step partitions st item =
     (case st of (columns_types, partitions_types) \<Rightarrow>
      case item of (k, v) \<Rightarrow>
        if k \<in> set partitions then (columns_types, dict_set partitions_types k v)
        else (dict_set columns_types k v, partitions_types))"

definition athena_types_from_pandas_partitioned ::
  "dataframe \<Rightarrow> bool \<Rightarrow> string list option \<Rightarrow> (string, string) dict option
     \<Rightarrow> error + (string, string) dict \<times> (string, string) dict" where
  "athena_types_from_pandas_partitioned df index partition_cols cast_columns =
     (let partitions = (case partition_cols of None \<Rightarrow> [] | Some l \<Rightarrow> l)
      in case athena_types_from_pandas df index cast_columns of
           Inl e \<Rightarrow> Inl e
         | Inr athena_columns_types \<Rightarrow>
             Inr (foldl (partition_step partitions) ([], []) athena_columns_types))"

section \<open>Partition Path Codec\<close>

record partition =
  p_name :: string
  p_keys :: "string list"

function zip_star :: "'a list list \<Rightarrow> 'a list list" where
  \<comment> \<open>\<^verbatim>\<open>zip(*xss)\<close>: the rows across the lists, as many as the shortest list has; no row
      when there is no list\<close>
  "zip_star xss =
     (if xss = [] \<or> list_ex (\<lambda>xs. xs = []) xss then []
      else map hd xss # zip_star (map tl xss))"
  by pat_completeness auto
termination
proof (relation "measure (\<lambda>xss. length (hd xss))")
  show "wf (measure (\<lambda>xss. length (hd xss)))" by simp
next
  fix xss :: "'a list list"
  assume a: "\<not> (xss = [] \<or> list_ex (\<lambda>xs. xs = []) xss)"
  then obtain xs rest where xss: "xss = xs # rest" by (cases xss) auto
  with a have "xs \<noteq> []" by simp
  then show "(map tl xss, xss) \<in> measure (\<lambda>xss. length (hd xss))"
    by (simp add: xss)
qed

definition ensure_slash :: "string \<Rightarrow> error + string" where
  \<comment> \<open>\<^verbatim>\<open>s if s[-1] == "/" else f"{s}/"\<close>; indexing the empty string raises\<close>
  "ensure_slash s =
     (if s = [] then Inl IndexError
      else if last s = CHR ''/'' then Inr s else Inr (s @ ''/''))"

fun partitions_loop ::
  "string \<Rightarrow> string list \<Rightarrow> string list list \<Rightarrow> (string, string list) dict
     \<Rightarrow> error + (string, string list) dict" where
  \<comment> \<open>the loop of lines 249-252 over the rows, filling \<^verbatim>\<open>partitions_values\<close>\<close>
  "partitions_loop path names [] acc = Inr acc"
| "partitions_loop path names (vals # rows) acc =
     (case ensure_slash (join ''/'' (map (\<lambda>(n, v). n @ ''='' @ v) (zip names vals))) of
        Inl e \<Rightarrow> Inl e
      | Inr suffix \<Rightarrow> partitions_loop path names rows (dict_set acc (path @ suffix) vals))"

definition athena_partitions_from_pyarrow_partitions ::
  "string \<Rightarrow> partition list \<Rightarrow> error + (string, string list) dict" where
  "athena_partitions_from_pyarrow_partitions path0 partitions =
     (case ensure_slash path0 of
        Inl e \<Rightarrow> Inl e
      | Inr path \<Rightarrow>
          partitions_loop path (map p_name partitions) (zip_star (map p_keys partitions)) [])"

declare zip_star.simps [simp del]

section \<open>Example dataframes\<close>

definition df_example :: dataframe where
  \<comment> \<open>columns id (int64) and name (strings, dtype object), default unnamed index\<close>
  "df_example =
     \<lparr>df_columns =
        [\<lparr>col_name = ''id'', col_dtype = ''int64'', col_arrow = pa_int64\<rparr>,
         \<lparr>col_name = ''name'', col_dtype = ''object'', col_arrow = pa_string\<rparr>],
      df_index = [(None, pa_int64)]\<rparr>"

definition df_indexed_by_id :: dataframe where
  \<comment> \<open>the same columns after \<^verbatim>\<open>df.set_index("id", drop=False)\<close>: the index is named id\<close>
  "df_indexed_by_id =
     \<lparr>df_columns =
        [\<lparr>col_name = ''id'', col_dtype = ''int64'', col_arrow = pa_int64\<rparr>,
         \<lparr>col_name = ''name'', col_dtype = ''object'', col_arrow = pa_string\<rparr>],
      df_index = [(Some ''id'', pa_int64)]\<rparr>"

definition df_time_null :: dataframe where
  \<comment> \<open>a time-of-day column t followed by a column x that holds no value at all\<close>
  "df_time_null =
     \<lparr>df_columns =
        [\<lparr>col_name = ''t'', col_dtype = ''object'', col_arrow = pa_other ''time64[us]''\<rparr>,
         \<lparr>col_name = ''x'', col_dtype = ''object'', col_arrow = pa_null\<rparr>],
      df_index = [(None, pa_int64)]\<rparr>"

definition df_id_null :: dataframe where
  \<comment> \<open>an int64 column id followed by a column x that holds no value at all\<close>
  "df_id_null =
     \<lparr>df_columns =
        [\<lparr>col_name = ''id'', col_dtype = ''int64'', col_arrow = pa_int64\<rparr>,
         \<lparr>col_name = ''x'', col_dtype = ''object'', col_arrow = pa_null\<rparr>],
      df_index = [(None, pa_int64)]\<rparr>"

section \<open>Partition paths as the specification words them\<close>

definition with_separator :: "string \<Rightarrow> string" where
  \<comment> \<open>the base path normalised to end with the separator\<close>
  "with_separator path = (if path \<noteq> [] \<and> last path = CHR ''/'' then path else path @ ''/'')"

definition rendered_pairs :: "string list \<Rightarrow> string list \<Rightarrow> string" where
  \<comment> \<open>\<^verbatim>\<open>key1=val1/key2=val2/.../\<close>: every pair followed by a separator\<close>
  "rendered_pairs names vals = concat (map (\<lambda>(n, v). n @ ''='' @ v @ ''/'') (zip names vals))"

definition partition_suffix :: "string list \<Rightarrow> string list \<Rightarrow> string" where
  \<comment> \<open>the pairs joined by the separator, and one more separator unless the joined text
      already ends with one\<close>
  "partition_suffix names vals =
     with_separator (join ''/'' (map (\<lambda>(n, v). n @ ''='' @ v) (zip names vals)))"

definition parts_example :: "partition list" where
  "parts_example =
     [\<lparr>p_name = ''name'', p_keys = [''A'']\<rparr>, \<lparr>p_name = ''date'', p_keys = [''2020-01-01'']\<rparr>]"

section \<open>Type-Directed Caster\<close>

text \<open>
  The values a dataframe cell holds, as far as \<^verbatim>\<open>cast_pandas_with_athena_types\<close> tells them
  apart: the three absent markers (Python's \<^verbatim>\<open>None\<close>, \<^verbatim>\<open>pd.NA\<close>, \<^verbatim>\<open>pd.NaT\<close>), strings, and
  the results of the casts. A date is year, month, day; a timestamp is a date and the
  nanoseconds since midnight. The decimal values are those of Python's \<^verbatim>\<open>Decimal\<close>, kept
  abstract as the type \<open>'d\<close>.
\<close>

type_synonym date = "int \<times> nat \<times> nat"

type_synonym timestamp = "date \<times> nat"

datatype 'd cell =
    PyNone
  | NA
  | NaT
  | Str string
  | Timestamp timestamp
  | Date date
  | Bytes "nat list"
  | Decimal 'd

text \<open>
  What the caster leaves to pandas and to the standard library: the scalar parser behind
  \<^verbatim>\<open>pd.to_datetime\<close>, the constructor \<^verbatim>\<open>Decimal(str)\<close> (\<open>None\<close> where it raises
  InvalidOperation), \<^verbatim>\<open>str\<close> on a value that is neither a string nor absent, and
  \<^verbatim>\<open>Series.astype\<close> to the other scalar kinds.
\<close>

record 'd library =
  parse_timestamp :: "string \<Rightarrow> timestamp option"
  decimal_of :: "string \<Rightarrow> 'd option"
  str_of :: "'d cell \<Rightarrow> string"
  astype :: "string \<Rightarrow> 'd cell list \<Rightarrow> error + 'd cell list"

fun sequence :: "(error + 'a) list \<Rightarrow> error + 'a list" where
  \<comment> \<open>the results in order, or the first exception\<close>
  "sequence [] = Inr []"
| "sequence (Inl e # rs) = Inl e"
| "sequence (Inr x # rs) = (case sequence rs of Inl e \<Rightarrow> Inl e | Inr xs \<Rightarrow> Inr (x # xs))"

fun to_datetime_cell :: "'d library \<Rightarrow> 'd cell \<Rightarrow> error + 'd cell" where
  \<comment> \<open>\<^verbatim>\<open>pd.to_datetime\<close> on one value, with its default \<^verbatim>\<open>errors="raise"\<close>\<close>
  "to_datetime_cell lib PyNone = Inr NaT"
| "to_datetime_cell lib NA = Inr NaT"
| "to_datetime_cell lib NaT = Inr NaT"
| "to_datetime_cell lib (Str s) =
     (case parse_timestamp lib s of None \<Rightarrow> Inl ValueError | Some t \<Rightarrow> Inr (Timestamp t))"
| "to_datetime_cell lib (Timestamp t) = Inr (Timestamp t)"
| "to_datetime_cell lib (Date d) = Inr (Timestamp (d, 0))"
| "to_datetime_cell lib (Bytes b) = Inl TypeError"
| "to_datetime_cell lib (Decimal d) = Inl TypeError"

definition to_datetime :: "'d library \<Rightarrow> 'd cell list \<Rightarrow> error + 'd cell list" where
  "to_datetime lib col = sequence (map (to_datetime_cell lib) col)"

fun dt_date :: "'d cell \<Rightarrow> 'd cell" where
  \<comment> \<open>\<^verbatim>\<open>.dt.date\<close> on one value of a datetime column\<close>
  "dt_date (Timestamp t) = Date (fst t)"
| "dt_date c = c"

definition replace_cell :: "'d cell \<Rightarrow> 'd cell \<Rightarrow> 'd cell \<Rightarrow> 'd cell" where
  \<comment> \<open>\<^verbatim>\<open>.replace(to_replace={old: new})\<close> on one value\<close>
  "replace_cell old new c = (if c = old then new else c)"

fun astype_string :: "'d library \<Rightarrow> 'd cell \<Rightarrow> 'd cell" where
  \<comment> \<open>\<^verbatim>\<open>.astype("string")\<close> on one value: a string, or \<^verbatim>\<open>pd.NA\<close> for an absent value\<close>
  "astype_string lib PyNone = NA"
| "astype_string lib NA = NA"
| "astype_string lib NaT = NA"
| "astype_string lib (Str s) = Str s"
| "astype_string lib c = Str (str_of lib c)"

fun py_str :: "'d library \<Rightarrow> 'd cell \<Rightarrow> string" where
  \<comment> \<open>\<^verbatim>\<open>str(x)\<close> on a value of a string column\<close>
  "py_str lib (Str s) = s"
| "py_str lib NA = ''<NA>''"
| "py_str lib c = str_of lib c"

definition utf8_char :: "char \<Rightarrow> nat list" where
  \<comment> \<open>the UTF-8 bytes of a code point below 256\<close>
  "utf8_char c =
     (let n = (of_char c :: nat)
      in if n < 128 then [n] else [192 + n div 64, 128 + n mod 64])"

fun encode_cell :: "'d library \<Rightarrow> 'd cell \<Rightarrow> 'd cell" where
  \<comment> \<open>\<^verbatim>\<open>.str.encode(encoding="utf-8")\<close> on one value of a string column\<close>
  "encode_cell lib (Str s) = Bytes (concat (map utf8_char s))"
| "encode_cell lib c = NA"

definition decimal_cell :: "'d library \<Rightarrow> 'd cell \<Rightarrow> error + 'd cell" where
  \<comment> \<open>the lambda of line 271\<close>
  "decimal_cell lib x =
     (if py_str lib x \<notin> set ['''', ''none'', '' '', ''<NA>'']
      then (case decimal_of lib (py_str lib x) of
              None \<Rightarrow> Inl InvalidOperation
            | Some d \<Rightarrow> Inr (Decimal d))
      else Inr PyNone)"

definition cast_column :: "'d library \<Rightarrow> string \<Rightarrow> 'd cell list \<Rightarrow> error + 'd cell list" where
  \<comment> \<open>lines 261-274: the new content of the column, by scalar kind\<close>
  "cast_column lib pandas_type col =
     (if pandas_type = ''datetime64'' then to_datetime lib col
      else if pandas_type = ''date'' then
        (case to_datetime lib col of
           Inl e \<Rightarrow> Inl e
         | Inr ts \<Rightarrow> Inr (map (replace_cell NaT PyNone \<circ> dt_date) ts))
      else if pandas_type = ''bytes'' then
        Inr (map (replace_cell NA PyNone \<circ> encode_cell lib \<circ> astype_string lib) col)
      else if pandas_type = ''decimal'' then
        sequence (map (decimal_cell lib \<circ> astype_string lib) col)
      else astype lib pandas_type col)"

text \<open>
  A dataframe is an object that the caller and the caster share: the heap maps each
  reference to the dataframe it denotes, a list of labelled columns. Assigning
  \<^verbatim>\<open>df[col] = values\<close> to a label that is present replaces the content of the columns
  carrying it and leaves their position.
\<close>

type_synonym 'd frame = "(string \<times> 'd cell list) list"

type_synonym 'd heap = "nat \<Rightarrow> 'd frame"

definition set_column :: "'d frame \<Rightarrow> string \<Rightarrow> 'd cell list \<Rightarrow> 'd frame" where
  "set_column f col new = map (\<lambda>(n, cs). if n = col then (n, new) else (n, cs)) f"

fun cast_pandas_with_athena_types ::
  "'d library \<Rightarrow> 'd heap \<Rightarrow> nat \<Rightarrow> (string, string) dict \<Rightarrow> 'd heap \<times> (error + nat)" where
  \<comment> \<open>the heap after the call and the reference returned, or the exception raised; the
      casts done before an exception stay in the heap\<close>
  "cast_pandas_with_athena_types lib h df [] = (h, Inr df)"
| "cast_pandas_with_athena_types lib h df ((col, athena_type) # cast_columns) =
     (case map_of (h df) col of
        None \<Rightarrow> cast_pandas_with_athena_types lib h df cast_columns
      | Some values \<Rightarrow>
          (case athena2pandas athena_type of
             Inl e \<Rightarrow> (h, Inl e)
           | Inr pandas_type \<Rightarrow>
               (case cast_column lib pandas_type values of
                  Inl e \<Rightarrow> (h, Inl e)
                | Inr new \<Rightarrow>
                    cast_pandas_with_athena_types lib
                      (h(df := set_column (h df) col new)) df cast_columns)))"

subsection \<open>The cells the claims word\<close>




definition rendering :: "'d library \<Rightarrow> 'd cell \<Rightarrow> string" where
  \<comment> \<open>the string rendering of a value: \<^verbatim>\<open>str\<close> of its \<^verbatim>\<open>astype("string")\<close>\<close>
  "rendering lib c = py_str lib (astype_string lib c)"

definition swallowed :: "string \<Rightarrow> bool" where
  \<comment> \<open>the four renderings that stand for a missing value\<close>
  "swallowed r = (r = '''' \<or> r = ''none'' \<or> r = '' '' \<or> r = ''<NA>'')"

definition decimal_result :: "'d library \<Rightarrow> 'd cell \<Rightarrow> 'd cell" where
  \<comment> \<open>absent for a swallowed rendering, the parsed decimal otherwise\<close>
  "decimal_result lib c =
     (if swallowed (rendering lib c) then PyNone
      else (case decimal_of lib (rendering lib c) of None \<Rightarrow> PyNone | Some d \<Rightarrow> Decimal d))"

definition decimal_ok :: "'d library \<Rightarrow> 'd cell \<Rightarrow> bool" where
  \<comment> \<open>the rendering is swallowed or \<^verbatim>\<open>Decimal\<close> accepts it\<close>
  "decimal_ok lib c = (swallowed (rendering lib c) \<or> decimal_of lib (rendering lib c) \<noteq> None)"

subsection \<open>A library instance for the examples\<close>

definition all_digits :: "string \<Rightarrow> bool" where
  "all_digits s = (s \<noteq> [] \<and> list_all is_digit s)"

definition digits_nat :: "string \<Rightarrow> nat" where
  "digits_nat s = foldl (\<lambda>a c. a * 10 + digit_val c) 0 s"

definition days_in_month :: "nat \<Rightarrow> nat \<Rightarrow> nat" where
  "days_in_month y m =
     (if m = 2 then (if y mod 4 = 0 \<and> (y mod 100 \<noteq> 0 \<or> y mod 400 = 0) then 29 else 28)
      else if m \<in> set [4, 6, 9, 11] then 30 else 31)"

definition iso_date :: "string \<Rightarrow> date option" where
  \<comment> \<open>\<^verbatim>\<open>YYYY-MM-DD\<close>\<close>
  "iso_date s =
     (if length s = 10 \<and> s ! 4 = CHR ''-'' \<and> s ! 7 = CHR ''-'' \<and> all_digits (take 4 s)
         \<and> all_digits (take 2 (drop 5 s)) \<and> all_digits (drop 8 s)
      then (let y = digits_nat (take 4 s); m = digits_nat (take 2 (drop 5 s));
                d = digits_nat (drop 8 s)
            in if 1 \<le> m \<and> m \<le> 12 \<and> 1 \<le> d \<and> d \<le> days_in_month y m
               then Some (int y, m, d) else None)
      else None)"

definition iso_time :: "string \<Rightarrow> nat option" where
  \<comment> \<open>\<^verbatim>\<open>HH:MM:SS\<close>, as nanoseconds since midnight\<close>
  "iso_time s =
     (if length s = 8 \<and> s ! 2 = CHR '':'' \<and> s ! 5 = CHR '':'' \<and> all_digits (take 2 s)
         \<and> all_digits (take 2 (drop 3 s)) \<and> all_digits (drop 6 s)
      then (let h = digits_nat (take 2 s); m = digits_nat (take 2 (drop 3 s));
                sec = digits_nat (drop 6 s)
            in if h < 24 \<and> m < 60 \<and> sec < 60
               then Some (((h * 60 + m) * 60 + sec) * 1000000000) else None)
      else None)"

definition iso_timestamp :: "string \<Rightarrow> timestamp option" where
  \<comment> \<open>an ISO date, alone or followed by a blank or T and the time of day\<close>
  "iso_timestamp s =
     (if length s = 10 then map_option (\<lambda>d. (d, 0)) (iso_date s)
      else if length s = 19 \<and> (s ! 10 = CHR '' '' \<or> s ! 10 = CHR ''T'') then
        (case iso_date (take 10 s) of
           None \<Rightarrow> None
         | Some d \<Rightarrow> map_option (\<lambda>t. (d, t)) (iso_time (drop 11 s)))
      else None)"

definition plain_decimal :: "string \<Rightarrow> (int \<times> nat) option" where
  \<comment> \<open>an optional sign, digits, and optionally a point and digits: the unscaled value
      and the number of digits after the point\<close>
  "plain_decimal s =
     (let neg = (s \<noteq> [] \<and> hd s = CHR ''-'');
          body = (if s \<noteq> [] \<and> (hd s = CHR ''-'' \<or> hd s = CHR ''+'') then tl s else s);
          sign = (if neg then - 1 else 1)
      in case split CHR ''.'' body of
           [i] \<Rightarrow> if all_digits i then Some (sign * int (digits_nat i), 0) else None
         | [i, f] \<Rightarrow>
             if all_digits (i @ f) then Some (sign * int (digits_nat (i @ f)), length f)
             else None
         | _ \<Rightarrow> None)"

definition example_library :: "(int \<times> nat) library" where
  \<comment> \<open>ISO timestamps and plain decimal literals; the examples hold strings and absent
      values only, so \<open>str_of\<close> and \<open>astype\<close> are never called on them\<close>
  "example_library =
     \<lparr>parse_timestamp = iso_timestamp, decimal_of = plain_decimal,
      str_of = (\<lambda>c. ''''), astype = (\<lambda>kind col. Inl TypeError)\<rparr>"

definition example_frame :: "(int \<times> nat) frame" where
  "example_frame =
     [(''id'', [Str ''1'', Str ''2'', Str ''3'']),
      (''amt'', [Str ''1.50'', Str '''', Str ''none'']),
      (''d'', [Str ''2020-01-01 10:30:00'', PyNone, Str ''2020-02-29''])]"


section \<open>Properties of the string helpers\<close>

lemma lower_char_idem: "lower_char (lower_char c) = lower_char c"
  unfolding lower_char_def Let_def by auto

lemma lower_idem: "lower (lower s) = lower s"
  by (simp add: lower_def lower_char_idem)

lemma of_char_digit_char: "d < 10 \<Longrightarrow> (of_char (digit_char d) :: nat) = 48 + d"
  by (simp add: digit_char_def)

lemma is_digit_digit_char: "d < 10 \<Longrightarrow> is_digit (digit_char d)"
  by (simp add: is_digit_def of_char_digit_char)

lemma digit_val_digit_char: "d < 10 \<Longrightarrow> digit_val (digit_char d) = d"
  by (simp add: digit_val_def of_char_digit_char)

lemma str_nat_digits: "\<forall>c \<in> set (str_nat n). is_digit c"
proof (induction n rule: str_nat.induct)
  case (1 n)
  show ?case
  proof (cases "n < 10")
    case True
    then show ?thesis by (subst str_nat.simps) (simp add: is_digit_digit_char)
  next
    case False
    with 1 show ?thesis
      by (subst str_nat.simps) (simp add: is_digit_digit_char)
  qed
qed

lemma str_nat_nonempty: "str_nat n \<noteq> []"
  by (subst str_nat.simps) simp

lemma parse_digits_all:
  "\<forall>c \<in> set ds. is_digit c \<Longrightarrow> ds \<noteq> [] \<or> prev \<Longrightarrow>
     parse_digits prev acc ds = Some (foldl (\<lambda>a c. a * 10 + digit_val c) acc ds)"
  by (induction ds arbitrary: prev acc) auto

lemma foldl_str_nat:
  "foldl (\<lambda>a c. a * 10 + digit_val c) 0 (str_nat n) = n"
proof (induction n rule: str_nat.induct)
  case (1 n)
  show ?case
  proof (cases "n < 10")
    case True
    then show ?thesis by (subst str_nat.simps) (simp add: digit_val_digit_char)
  next
    case False
    with 1 show ?thesis
      by (subst str_nat.simps) (simp add: digit_val_digit_char)
  qed
qed

lemma parse_digits_str_nat: "parse_digits False 0 (str_nat n) = Some n"
  using parse_digits_all [OF str_nat_digits, of n False 0]
  by (simp add: str_nat_nonempty foldl_str_nat)

lemma digit_not_space: "is_digit c \<Longrightarrow> \<not> is_space c"
  by (auto simp: is_digit_def is_space_def)

lemma strip_id:
  assumes "s \<noteq> []" "\<not> is_space (hd s)" "\<not> is_space (last s)"
  shows "strip s = s"
proof -
  from assms have a: "dropWhile is_space s = s" by (cases s) auto
  from assms have "rev s \<noteq> []" "\<not> is_space (hd (rev s))" by (auto simp: hd_rev)
  then have "dropWhile is_space (rev s) = rev s" by (cases "rev s") auto
  with a show ?thesis by (simp add: strip_def)
qed

lemma strip_digits: "s \<noteq> [] \<Longrightarrow> \<forall>c \<in> set s. is_digit c \<Longrightarrow> strip s = s"
  by (rule strip_id) (auto simp: digit_not_space)

lemma py_int_str_nat: "py_int (str_nat n) = Some (int n)"
proof -
  obtain c cs where eq: "str_nat n = c # cs"
    using str_nat_nonempty [of n] by (cases "str_nat n") auto
  have "is_digit c" using str_nat_digits [of n] eq by simp
  then have "c \<noteq> CHR ''-''" "c \<noteq> CHR ''+''" by (auto simp: is_digit_def)
  moreover have "strip (str_nat n) = c # cs"
    using strip_digits [OF str_nat_nonempty str_nat_digits, of n] eq by simp
  moreover have "parse_digits False 0 (c # cs) = Some n"
    using parse_digits_str_nat [of n] eq by simp
  ultimately show ?thesis by (simp add: py_int_def)
qed

lemma lower_char_digit: "is_digit c \<Longrightarrow> lower_char c = c"
  by (auto simp: is_digit_def lower_char_def)

lemma lower_digits: "\<forall>c \<in> set s. is_digit c \<Longrightarrow> lower s = s"
  by (simp add: lower_def lower_char_digit map_idI)

lemma lower_append: "lower (a @ b) = lower a @ lower b"
  by (simp add: lower_def)

lemma replace_absent:
  "old \<noteq> [] \<Longrightarrow> hd old \<notin> set s \<Longrightarrow> replace old new s = s"
proof (induction s)
  case Nil
  then show ?case by (simp add: replace.simps)
next
  case (Cons c cs)
  then have "\<not> startswith (c # cs) old"
    by (cases old) (auto simp: startswith_def)
  with Cons show ?case by (simp add: replace.simps)
qed

lemma replace_prefix:
  "old \<noteq> [] \<Longrightarrow> replace old new (old @ s) = new @ replace old new s"
  by (cases old) (simp_all add: replace.simps startswith_def)

lemma replace_char_drop:
  "replace [x] [] s = filter (\<lambda>c. c \<noteq> x) s"
  by (induction s) (auto simp: replace.simps startswith_def)

lemma filter_absent: "x \<notin> set s \<Longrightarrow> filter (\<lambda>c. c \<noteq> x) s = s"
  by (induction s) auto

lemma split_no_sep: "sep \<notin> set s \<Longrightarrow> split sep s = [s]"
  by (induction s) auto

lemma split_at_sep:
  "sep \<notin> set a \<Longrightarrow> split sep (a @ sep # b) = a # split sep b"
  by (induction a) (auto split: list.splits)

lemma digit_chars:
  "is_digit c \<Longrightarrow> c \<noteq> CHR ''d'' \<and> c \<noteq> CHR '')'' \<and> c \<noteq> CHR '',''"
  by (auto simp: is_digit_def)

lemma parse_decimal_args_tag:
  "parse_decimal_args (decimal_tag p s) = decimal128 (int p) (int s)"
proof -
  let ?P = "str_nat p" and ?S = "str_nat s"
  let ?body = "?P @ CHR '','' # ?S @ [CHR '')'']"
  have dP: "CHR ''d'' \<notin> set ?P" "CHR '')'' \<notin> set ?P" "CHR '','' \<notin> set ?P"
    using str_nat_digits [of p] digit_chars by blast+
  have dS: "CHR ''d'' \<notin> set ?S" "CHR '')'' \<notin> set ?S" "CHR '','' \<notin> set ?S"
    using str_nat_digits [of s] digit_chars by blast+
  have tag: "decimal_tag p s = ''decimal('' @ ?body"
    by (simp add: decimal_tag_def)
  have "hd ''decimal('' \<notin> set ?body"
    using dP(1) dS(1) by simp
  then have "replace ''decimal('' [] ?body = ?body"
    by (intro replace_absent) simp_all
  then have r1: "replace ''decimal('' [] (''decimal('' @ ?body) = ?body"
    using replace_prefix [of "''decimal(''" "[]" ?body] by simp
  have r2: "replace [CHR '')''] [] ?body = ?P @ CHR '','' # ?S"
    using dP(2) dS(2) by (simp add: replace_char_drop filter_absent)
  have r3: "split CHR '','' (?P @ CHR '','' # ?S) = [?P, ?S]"
    using split_at_sep [OF dP(3), of ?S] split_no_sep [OF dS(3)] by simp
  show ?thesis
    unfolding parse_decimal_args_def tag r1 r2 r3
    by (simp add: py_int_str_nat)
qed

lemma lower_decimal_tag: "lower (decimal_tag p s) = decimal_tag p s"
proof -
  have a: "lower (str_nat p) = str_nat p" "lower (str_nat s) = str_nat s"
    by (simp_all add: lower_digits str_nat_digits)
  have b: "lower ''decimal('' = ''decimal(''" "lower '','' = '',''" "lower '')'' = '')''"
    by (simp_all add: lower_def lower_char_def)
  show ?thesis
    by (simp only: decimal_tag_def lower_append a b)
qed

lemma athena2pyarrow_decimal_prefix:
  "lower t = ''decimal('' @ r \<Longrightarrow> athena2pyarrow t = parse_decimal_args (''decimal('' @ r)"
  by (simp add: athena2pyarrow_def py_or_def startswith_def)

lemma athena2pyarrow_decimal_tag:
  "athena2pyarrow (decimal_tag p s) = decimal128 (int p) (int s)"
proof -
  have "lower (decimal_tag p s) = ''decimal('' @ (str_nat p @ '','' @ str_nat s @ '')'')"
    using lower_decimal_tag [of p s] by (simp only: decimal_tag_def)
  from athena2pyarrow_decimal_prefix [OF this] show ?thesis
    by (simp only: parse_decimal_args_tag [unfolded decimal_tag_def])
qed

lemma roundtrip_decimal:
  assumes "1 \<le> p" "p \<le> 38" "s \<le> 2147483647"
  shows "roundtrip (decimal_tag p s) = Inr (decimal_tag p s)"
proof -
  have "decimal128 (int p) (int s) = Inr (pa_decimal128 (int p) (int s))"
    using assms by (simp add: decimal128_def c_int_def)
  then show ?thesis
    by (simp add: roundtrip_def athena2pyarrow_decimal_tag str_int_def)
       (simp add: decimal_tag_def)
qed

lemma roundtrip_decimal_39: "roundtrip ''decimal(39,2)'' = Inl ValueError"
proof -
  have "decimal_tag 39 2 = ''decimal(39,2)''"
    by code_simp
  moreover have "roundtrip (decimal_tag 39 2) = Inl ValueError"
    by (simp add: roundtrip_def athena2pyarrow_decimal_tag decimal128_def c_int_def)
  ultimately show ?thesis by simp
qed

section \<open>Type Mapper: claims\<close>

text \<open>
  Claim C1, as amended. Mapping an Athena tag to Arrow and back returns the tag itself
  for each canonical tag: tinyint, smallint, int, bigint, float, double, boolean, string,
  timestamp, date, binary, and \<^verbatim>\<open>decimal(p,s)\<close> written in plain decimal digits with a
  precision from 1 to 38 and a scale from 0 to the precision (so \<^verbatim>\<open>decimal(10,2)\<close> comes
  back as \<^verbatim>\<open>decimal(10,2)\<close>). The aliases do not come back as themselves but as their
  canonical tag: integer as int, char and varchar as string.
\<close>

theorem roundtrip_canonical_tags:
  "roundtrip ''tinyint'' = Inr ''tinyint'' \<and>
   roundtrip ''smallint'' = Inr ''smallint'' \<and>
   roundtrip ''int'' = Inr ''int'' \<and>
   roundtrip ''bigint'' = Inr ''bigint'' \<and>
   roundtrip ''float'' = Inr ''float'' \<and>
   roundtrip ''double'' = Inr ''double'' \<and>
   roundtrip ''boolean'' = Inr ''boolean'' \<and>
   roundtrip ''string'' = Inr ''string'' \<and>
   roundtrip ''timestamp'' = Inr ''timestamp'' \<and>
   roundtrip ''date'' = Inr ''date'' \<and>
   roundtrip ''binary'' = Inr ''binary'' \<and>
   (1 \<le> p \<and> p \<le> 38 \<and> s \<le> p \<longrightarrow>
      roundtrip (decimal_tag p s) = Inr (decimal_tag p s)) \<and>
   decimal_tag 10 2 = ''decimal(10,2)'' \<and>
   roundtrip ''integer'' = Inr ''int'' \<and>
   roundtrip ''char'' = Inr ''string'' \<and>
   roundtrip ''varchar'' = Inr ''string''"
proof -
  have plain:
    "roundtrip ''tinyint'' = Inr ''tinyint''"
    "roundtrip ''smallint'' = Inr ''smallint''"
    "roundtrip ''int'' = Inr ''int''"
    "roundtrip ''bigint'' = Inr ''bigint''"
    "roundtrip ''float'' = Inr ''float''"
    "roundtrip ''double'' = Inr ''double''"
    "roundtrip ''boolean'' = Inr ''boolean''"
    "roundtrip ''string'' = Inr ''string''"
    "roundtrip ''timestamp'' = Inr ''timestamp''"
    "roundtrip ''date'' = Inr ''date''"
    "roundtrip ''binary'' = Inr ''binary''"
    "roundtrip ''integer'' = Inr ''int''"
    "roundtrip ''char'' = Inr ''string''"
    "roundtrip ''varchar'' = Inr ''string''"
    by (simp_all add: roundtrip_def athena2pyarrow_def lower_def lower_char_def py_or_def
          startswith_def)
  have ex: "decimal_tag 10 2 = ''decimal(10,2)''"
    by code_simp
  have dec: "roundtrip (decimal_tag p s) = Inr (decimal_tag p s)"
    if "1 \<le> p" "p \<le> 38" "s \<le> p"
    using that by (intro roundtrip_decimal) simp_all
  show ?thesis
    using dec by (simp only: plain ex simp_thms) blast
qed

theorem roundtrip_canonical_tags_witness:
  "(1::nat) \<le> 10 \<and> (10::nat) \<le> 38 \<and> (2::nat) \<le> 10 \<and>
   roundtrip ''decimal(10,2)'' = Inr ''decimal(10,2)''"
proof -
  have c: "(1::nat) \<le> 10 \<and> (10::nat) \<le> 38 \<and> (2::nat) \<le> 10"
    by simp
  have a: "roundtrip (decimal_tag 10 2) = Inr (decimal_tag 10 2)"
    using roundtrip_canonical_tags [of 10 2] c by blast
  have b: "decimal_tag 10 2 = ''decimal(10,2)''"
    using roundtrip_canonical_tags [of 10 2] by blast
  from a c show ?thesis unfolding b by blast
qed

text \<open>
  Claim C1 as stated fails: the tag integer belongs to the vocabulary and is not
  composite, yet it comes back as int; char and varchar come back as string; and
  \<^verbatim>\<open>decimal(39,2)\<close>, whose precision the Arrow constructor refuses, raises ValueError.
\<close>

theorem roundtrip_alias_counterexample:
  "roundtrip ''integer'' \<noteq> Inr ''integer'' \<and>
   roundtrip ''char'' \<noteq> Inr ''char'' \<and>
   roundtrip ''varchar'' \<noteq> Inr ''varchar'' \<and>
   roundtrip ''decimal(39,2)'' = Inl ValueError"
  by (simp add: roundtrip_decimal_39)
     (simp add: roundtrip_def athena2pyarrow_def lower_def lower_char_def)

text \<open>
  Claim C2. The tag varbinary should map to the Arrow binary type, as binary does. The
  test on line 39 is \<^verbatim>\<open>dtype in ("binary" or "varbinary")\<close>, which Python evaluates as the
  substring test \<^verbatim>\<open>dtype in "binary"\<close>: varbinary is rejected with UnsupportedType, while
  the sibling \<^verbatim>\<open>athena2pandas\<close> accepts it, and fragments of the word binary such as bin
  or the empty tag are accepted although they are outside the vocabulary.
\<close>

theorem athena2pyarrow_varbinary_rejected:
  "athena2pyarrow ''varbinary'' = Inl UnsupportedType \<and>
   athena2pyarrow ''binary'' = Inr pa_binary \<and>
   athena2pandas ''varbinary'' = Inr ''bytes'' \<and>
   athena2pyarrow ''bin'' = Inr pa_binary \<and>
   athena2pyarrow '''' = Inr pa_binary"
  by (simp add: athena2pyarrow_def athena2pandas_def lower_def lower_char_def py_or_def
        startswith_def)

text \<open>
  Claim C9. \<^verbatim>\<open>athena2pyarrow\<close> is case-insensitive: on every tag it returns what it
  returns on the lowercased tag (the same type or the same exception); BIGINT, bigint and
  BigInt all give the 64-bit signed integer type.
\<close>

theorem athena2pyarrow_case_insensitive:
  "athena2pyarrow tag = athena2pyarrow (lower tag) \<and>
   athena2pyarrow ''BIGINT'' = Inr pa_int64 \<and>
   athena2pyarrow ''bigint'' = Inr pa_int64 \<and>
   athena2pyarrow ''BigInt'' = Inr pa_int64"
proof -
  have "athena2pyarrow tag = athena2pyarrow (lower tag)"
    by (simp add: athena2pyarrow_def lower_idem)
  moreover have "lower ''BIGINT'' = ''bigint''" "lower ''BigInt'' = ''bigint''"
    by code_simp+
  moreover have "athena2pyarrow (lower ''bigint'') = Inr pa_int64"
    by (simp add: athena2pyarrow_def lower_idem) (simp add: lower_def lower_char_def)
  moreover have "athena2pyarrow ''bigint'' = Inr pa_int64"
    by (simp add: athena2pyarrow_def lower_def lower_char_def)
  moreover have "athena2pyarrow ''BIGINT'' = athena2pyarrow (lower ''BIGINT'')"
    "athena2pyarrow ''BigInt'' = athena2pyarrow (lower ''BigInt'')"
    by (simp_all only: athena2pyarrow_def lower_idem)
  ultimately show ?thesis by (simp only: simp_thms)
qed

section \<open>Dictionaries and the partition split\<close>

lemma dict_set_keys:
  "map fst (dict_set d k v) = (if k \<in> set (map fst d) then map fst d else map fst d @ [k])"
  by (induction d) force+

lemma dict_set_new: "k \<notin> set (map fst d) \<Longrightarrow> dict_set d k v = d @ [(k, v)]"
  by (induction d) auto

lemma distinct_dict_set: "distinct (map fst d) \<Longrightarrow> distinct (map fst (dict_set d k v))"
  by (simp add: dict_set_keys)

lemma athena_loop_distinct:
  "athena_loop casts items acc = Inr r \<Longrightarrow> distinct (map fst acc) \<Longrightarrow> distinct (map fst r)"
proof (induction items arbitrary: acc)
  case Nil
  then show ?case by simp
next
  case (Cons item items)
  obtain k v where item: "item = (k, v)" by (cases item)
  from Cons.prems obtain t where "athena_loop casts items (dict_set acc k t) = Inr r"
    by (auto simp: item split: option.splits sum.splits)
  with Cons.IH [of "dict_set acc k t"] Cons.prems(2) show ?case
    by (simp add: distinct_dict_set)
qed

lemma athena_types_distinct:
  "athena_types_from_pandas df index cast_columns = Inr schema \<Longrightarrow> distinct (map fst schema)"
  by (auto simp: athena_types_from_pandas_def Let_def split: sum.splits
      dest: athena_loop_distinct)

lemma partition_fold:
  "distinct (map fst xs) \<Longrightarrow> set (map fst xs) \<inter> (set (map fst c0) \<union> set (map fst p0)) = {} \<Longrightarrow>
   foldl (partition_step partitions) (c0, p0) xs =
     (c0 @ filter (\<lambda>(k, v). k \<notin> set partitions) xs,
      p0 @ filter (\<lambda>(k, v). k \<in> set partitions) xs)"
proof (induction xs arbitrary: c0 p0)
  case Nil
  then show ?case by simp
next
  case (Cons x xs)
  obtain k v where x: "x = (k, v)" by (cases x)
  from Cons.prems have new: "k \<notin> set (map fst c0)" "k \<notin> set (map fst p0)"
    by (auto simp: x)
  show ?case
  proof (cases "k \<in> set partitions")
    case True
    have "foldl (partition_step partitions) (c0, p0) (x # xs) =
          foldl (partition_step partitions) (c0, p0 @ [(k, v)]) xs"
      using True new by (simp add: x partition_step_def dict_set_new)
    also have "\<dots> = (c0 @ filter (\<lambda>(k, v). k \<notin> set partitions) xs,
                      (p0 @ [(k, v)]) @ filter (\<lambda>(k, v). k \<in> set partitions) xs)"
      using Cons.prems by (intro Cons.IH) (auto simp: x)
    finally show ?thesis using True by (simp add: x)
  next
    case False
    have "foldl (partition_step partitions) (c0, p0) (x # xs) =
          foldl (partition_step partitions) (c0 @ [(k, v)], p0) xs"
      using False new by (simp add: x partition_step_def dict_set_new)
    also have "\<dots> = ((c0 @ [(k, v)]) @ filter (\<lambda>(k, v). k \<notin> set partitions) xs,
                      p0 @ filter (\<lambda>(k, v). k \<in> set partitions) xs)"
      using Cons.prems by (intro Cons.IH) (auto simp: x)
    finally show ?thesis using False by (simp add: x)
  qed
qed

lemma partitioned_eq:
  "athena_types_from_pandas_partitioned df index partition_cols cast_columns =
     (case athena_types_from_pandas df index cast_columns of
        Inl e \<Rightarrow> Inl e
      | Inr schema \<Rightarrow>
          Inr (filter (\<lambda>(k, v). k \<notin> set (case partition_cols of None \<Rightarrow> [] | Some l \<Rightarrow> l)) schema,
               filter (\<lambda>(k, v). k \<in> set (case partition_cols of None \<Rightarrow> [] | Some l \<Rightarrow> l)) schema))"
proof (cases "athena_types_from_pandas df index cast_columns")
  case (Inl e)
  then show ?thesis by (simp add: athena_types_from_pandas_partitioned_def)
next
  case (Inr schema)
  then have "distinct (map fst schema)" by (rule athena_types_distinct)
  then show ?thesis
    using partition_fold [of schema "[]" "[]"] Inr
    by (simp add: athena_types_from_pandas_partitioned_def)
qed

section \<open>Schema Inferrer: claims\<close>

lemmas schema_eval =
  athena_types_from_pandas_def pyarrow_types_from_pandas_def dtypes_to_dict_def
  dict_of_pairs_def dtype_step_def field_step_def schema_from_pandas_def select_columns_def
  columns_of_def extension_dtype_def index_level_name_def dict_get_def enumerate_eq_zip

lemma str_nat_0: "str_nat 0 = ''0''"
  by code_simp

text \<open>
  Claim C3. A column named in the cast mapping should get the override's type whatever
  inference says. The second loop of \<^verbatim>\<open>pyarrow_types_from_pandas\<close> (lines 162-166) writes
  every inferred field into \<^verbatim>\<open>cols_dtypes\<close>, also an index field that carries the name of
  an overridden column, and so erases the marker that line 146 left for the override. On
  the dataframe with columns id and name and the index named id, with the index kept and
  the override id: string, the schema gives id the index's type bigint; without the index
  the override wins.
\<close>

theorem override_lost_to_index_field:
  "athena_types_from_pandas df_indexed_by_id True (Some [(''id'', ''string'')]) =
     Inr [(''id'', ''bigint''), (''name'', ''string'')] \<and>
   athena_types_from_pandas df_indexed_by_id False (Some [(''id'', ''string'')]) =
     Inr [(''id'', ''string''), (''name'', ''string'')]"
  by (simp add: schema_eval df_indexed_by_id_def)

text \<open>
  Claim C5, as amended. \<^verbatim>\<open>athena_types_from_pandas_partitioned\<close> fails exactly when schema
  inference fails; otherwise it splits the inferred schema by membership in the
  partition-key list: the partition schema is the inferred schema restricted to the
  listed names and the column schema is the inferred schema restricted to the others,
  both in the order of the inferred schema. Every inferred column is in exactly one of
  the two, and they share no name.
\<close>

theorem partitioned_split_in_schema_order:
  "athena_types_from_pandas_partitioned df index (Some ps) cast_columns =
     (case athena_types_from_pandas df index cast_columns of
        Inl e \<Rightarrow> Inl e
      | Inr schema \<Rightarrow>
          Inr (filter (\<lambda>(k, v). k \<notin> set ps) schema, filter (\<lambda>(k, v). k \<in> set ps) schema)) \<and>
   athena_types_from_pandas_partitioned df index None cast_columns =
     athena_types_from_pandas_partitioned df index (Some []) cast_columns \<and>
   (\<forall>cs parts.
      athena_types_from_pandas_partitioned df index (Some ps) cast_columns = Inr (cs, parts) \<longrightarrow>
        set (map fst cs) \<inter> set (map fst parts) = {} \<and>
        (\<exists>schema. athena_types_from_pandas df index cast_columns = Inr schema \<and>
           distinct (map fst schema) \<and>
           set (map fst cs) \<union> set (map fst parts) = set (map fst schema)))"
proof (cases "athena_types_from_pandas df index cast_columns")
  case (Inl e)
  then show ?thesis by (simp add: partitioned_eq athena_types_from_pandas_partitioned_def)
next
  case (Inr schema)
  have d: "distinct (map fst schema)" using Inr by (rule athena_types_distinct)
  have "set (map fst (filter (\<lambda>(k, v). k \<notin> set ps) schema)) \<inter>
        set (map fst (filter (\<lambda>(k, v). k \<in> set ps) schema)) = {}"
    using d by (induction schema) auto
  moreover have "set (map fst (filter (\<lambda>(k, v). k \<notin> set ps) schema)) \<union>
        set (map fst (filter (\<lambda>(k, v). k \<in> set ps) schema)) = set (map fst schema)"
    by (induction schema) auto
  moreover have "athena_types_from_pandas_partitioned df index None cast_columns =
     athena_types_from_pandas_partitioned df index (Some []) cast_columns"
    by (simp add: athena_types_from_pandas_partitioned_def)
  ultimately show ?thesis using Inr d by (simp add: partitioned_eq)
qed

theorem partitioned_split_witness:
  "athena_types_from_pandas_partitioned df_example False (Some [''name'']) None =
     Inr ([(''id'', ''bigint'')], [(''name'', ''string'')]) \<and>
   athena_types_from_pandas df_example False None =
     Inr [(''id'', ''bigint''), (''name'', ''string'')] \<and>
   set (map fst [(''id'', ''bigint'')]) \<inter> set (map fst [(''name'', ''string'')]) = {}"
proof -
  have s: "athena_types_from_pandas df_example False None =
     Inr [(''id'', ''bigint''), (''name'', ''string'')]"
    by (simp add: schema_eval df_example_def)
  show ?thesis
    using partitioned_split_in_schema_order [of df_example False "[''name'']" None]
    by (simp add: s)
qed

text \<open>
  Claim C5 as stated fails: with the partition-key list name, id the partition schema
  lists id before name, the order of the dataframe's columns and not that of the list.
\<close>

theorem partition_order_counterexample:
  "athena_types_from_pandas_partitioned df_example False (Some [''name'', ''id'']) None =
     Inr ([], [(''id'', ''bigint''), (''name'', ''string'')]) \<and>
   map fst [(''id'', ''bigint''), (''name'', ''string'')] \<noteq> [''name'', ''id'']"
  by (simp add: athena_types_from_pandas_partitioned_def partition_step_def schema_eval
        df_example_def)

section \<open>Schema Inferrer: the null type\<close>

lemma athena_loop_first_failure:
  assumes "\<forall>(k, v) \<in> set pre.
             (case v of None \<Rightarrow> \<exists>t. map_of casts k = Some t
                      | Some ty \<Rightarrow> \<exists>t. pyarrow2athena ty = Inr t)"
    and "pyarrow2athena ty = Inl e"
  shows "athena_loop casts (pre @ (x, Some ty) # post) acc = Inl e"
  using assms(1)
proof (induction pre arbitrary: acc)
  case Nil
  then show ?case using assms(2) by simp
next
  case (Cons item pre)
  obtain k v where item: "item = (k, v)" by (cases item)
  show ?case
  proof (cases v)
    case None
    with Cons.prems obtain t where "map_of casts k = Some t" by (auto simp: item)
    with Cons show ?thesis by (simp add: item None dict_get_def)
  next
    case (Some ty')
    with Cons.prems obtain t where "pyarrow2athena ty' = Inr t" by (auto simp: item)
    with Cons show ?thesis by (simp add: item Some)
  qed
qed

lemma athena_loop_some_failure:
  assumes "pyarrow2athena ty = Inl e"
  shows "\<exists>e'. athena_loop casts (pre @ (x, Some ty) # post) acc = Inl e'"
proof (induction pre arbitrary: acc)
  case Nil
  then show ?case using assms by simp
next
  case (Cons item pre)
  obtain k v where item: "item = (k, v)" by (cases item)
  show ?case
    using Cons.IH by (auto simp: item split: option.splits sum.splits)
qed

text \<open>
  Claim C7, as amended. \<^verbatim>\<open>pyarrow2athena\<close> on the null Arrow type raises UndetectedType
  and never returns a string, also when the null type is wrapped as a dictionary's value
  type. Whenever the Arrow types that \<^verbatim>\<open>pyarrow_types_from_pandas\<close> gathers for a
  dataframe hold the null type for some column, \<^verbatim>\<open>athena_types_from_pandas\<close> returns no
  schema: it raises, and the exception is UndetectedType whenever every column before
  that one converts (is overridden, or has an Arrow type that \<^verbatim>\<open>pyarrow2athena\<close> maps).
\<close>

theorem null_column_undetected:
  "pyarrow2athena pa_null = Inl UndetectedType \<and>
   pyarrow2athena (pa_dictionary pa_null) = Inl UndetectedType \<and>
   (pyarrow_types_from_pandas df index (Some (map fst casts)) =
        Inr (pre @ (x, Some pa_null) # post) \<longrightarrow>
      (\<exists>e. athena_types_from_pandas df index (Some casts) = Inl e) \<and>
      ((\<forall>(k, v) \<in> set pre.
          (case v of None \<Rightarrow> \<exists>t. map_of casts k = Some t
                   | Some ty \<Rightarrow> \<exists>t. pyarrow2athena ty = Inr t)) \<longrightarrow>
         athena_types_from_pandas df index (Some casts) = Inl UndetectedType))"
proof -
  have n: "pyarrow2athena pa_null = Inl UndetectedType" by simp
  show ?thesis
    using athena_loop_some_failure [OF n, of casts pre x post "[]"]
      athena_loop_first_failure [OF _ n, of pre casts x post "[]"]
    by (auto simp: athena_types_from_pandas_def)
qed

theorem null_column_undetected_witness:
  "pyarrow_types_from_pandas df_id_null False (Some (map fst [])) =
     Inr ([(''id'', Some pa_int64)] @ (''x'', Some pa_null) # []) \<and>
   athena_types_from_pandas df_id_null False (Some []) = Inl UndetectedType"
proof -
  have p: "pyarrow_types_from_pandas df_id_null False (Some (map fst [])) =
     Inr ([(''id'', Some pa_int64)] @ (''x'', Some pa_null) # [])"
    by (simp add: schema_eval df_id_null_def)
  show ?thesis
    using null_column_undetected [of df_id_null False "[]" "[(''id'', Some pa_int64)]" "''x''" "[]"] p
    by simp
qed

text \<open>
  Claim C7 as stated fails on its second half: a dataframe with an all-null column x
  does not always make schema inference raise UndetectedType. On the dataframe with a
  time-of-day column t before x, the column t raises UnsupportedType first; and on the
  same dataframe without its index, with cast overrides for t and x, the Arrow types
  gathered hold no null type and inference returns a schema.
\<close>

theorem null_column_counterexample:
  "athena_types_from_pandas df_time_null False None = Inl UnsupportedType \<and>
   athena_types_from_pandas df_time_null False (Some [(''t'', ''string''), (''x'', ''string'')]) =
     Inr [(''t'', ''string''), (''x'', ''string'')]"
  by (simp add: schema_eval df_time_null_def)

section \<open>Partition Path Codec: claims\<close>

lemma zip_star_row_length:
  "vals \<in> set (zip_star xss) \<Longrightarrow> xss \<noteq> [] \<and> length vals = length xss"
proof (induction xss rule: zip_star.induct)
  case (1 xss)
  show ?case
  proof (cases "xss = [] \<or> list_ex (\<lambda>xs. xs = []) xss")
    case True
    with "1.prems" show ?thesis by (simp add: zip_star.simps)
  next
    case False
    with "1.prems" have "vals = map hd xss \<or> vals \<in> set (zip_star (map tl xss))"
      by (subst (asm) zip_star.simps) simp
    then show ?thesis
    proof
      assume "vals = map hd xss"
      with False show ?thesis by simp
    next
      assume "vals \<in> set (zip_star (map tl xss))"
      with "1.IH" [OF False] False show ?thesis by simp
    qed
  qed
qed

lemma join_nonempty: "xs \<noteq> [] \<Longrightarrow> hd xs \<noteq> [] \<Longrightarrow> join sep xs \<noteq> []"
  by (induction sep xs rule: join.induct) auto

lemma join_with_separator:
  "xs \<noteq> [] \<Longrightarrow> join ''/'' xs @ ''/'' = concat (map (\<lambda>x. x @ ''/'') xs)"
  by (induction "''/''" xs rule: join.induct) auto

lemma join_nonempty_last: "xs \<noteq> [] \<Longrightarrow> last xs \<noteq> [] \<Longrightarrow> join sep xs \<noteq> []"
  by (induction sep xs rule: join.induct) auto

lemma last_join: "xs \<noteq> [] \<Longrightarrow> last xs \<noteq> [] \<Longrightarrow> last (join sep xs) = last (last xs)"
proof (induction sep xs rule: join.induct)
  case (3 sep x y ys)
  then have "join sep (y # ys) \<noteq> []" by (intro join_nonempty_last) auto
  with 3 show ?case by simp
qed simp_all

lemma last_zip_same_length:
  "length xs = length ys \<Longrightarrow> xs \<noteq> [] \<Longrightarrow> last (zip xs ys) = (last xs, last ys)"
  by (induction xs ys rule: list_induct2) auto

lemma ensure_slash_with_separator: "s \<noteq> [] \<Longrightarrow> ensure_slash s = Inr (with_separator s)"
  by (simp add: ensure_slash_def with_separator_def)

lemma pairs_nonempty:
  assumes "names \<noteq> []" "vals \<noteq> []"
  shows "join ''/'' (map (\<lambda>(n, v). n @ ''='' @ v) (zip names vals)) \<noteq> []"
proof -
  obtain n ns v vs where "names = n # ns" "vals = v # vs"
    using assms by (cases names; cases vals) auto
  then show ?thesis by (intro join_nonempty) auto
qed

lemma partitions_loop_total:
  "names \<noteq> [] \<Longrightarrow> \<forall>vals \<in> set rows. vals \<noteq> [] \<Longrightarrow>
   partitions_loop path names rows acc =
     Inr (foldl (\<lambda>d vals. dict_set d (path @ partition_suffix names vals) vals) acc rows)"
proof (induction rows arbitrary: acc)
  case Nil
  then show ?case by simp
next
  case (Cons vals rows)
  then have ne: "join ''/'' (map (\<lambda>(n, v). n @ ''='' @ v) (zip names vals)) \<noteq> []"
    by (intro pairs_nonempty) simp_all
  have "ensure_slash (join ''/'' (map (\<lambda>(n, v). n @ ''='' @ v) (zip names vals))) =
      Inr (partition_suffix names vals)"
    unfolding partition_suffix_def by (rule ensure_slash_with_separator [OF ne])
  with Cons show ?case by simp
qed

lemma partition_suffix_rendered:
  assumes "length names = length vals" "vals \<noteq> []"
    and "last vals = [] \<or> last (last vals) \<noteq> CHR ''/''"
  shows "partition_suffix names vals = rendered_pairs names vals"
proof -
  let ?f = "\<lambda>(n, v). n @ ''='' @ v"
  let ?ps = "map ?f (zip names vals)"
  from assms have ne: "zip names vals \<noteq> []" by (cases names; cases vals) auto
  then have ps: "?ps \<noteq> []" by simp
  have lz: "last (zip names vals) = (last names, last vals)"
    using assms(1,2) by (intro last_zip_same_length) auto
  have "last ?ps = last names @ ''='' @ last vals"
    using ne by (simp add: last_map lz)
  then have "last ?ps \<noteq> []" "last (last ?ps) \<noteq> CHR ''/''"
    using assms(3) by auto
  then have "last (join ''/'' ?ps) \<noteq> CHR ''/''"
    using last_join [OF ps, of "''/''"] by simp
  then have "partition_suffix names vals = join ''/'' ?ps @ ''/''"
    by (simp add: partition_suffix_def with_separator_def)
  also have "\<dots> = concat (map (\<lambda>x. x @ ''/'') ?ps)"
    using ps by (rule join_with_separator)
  also have "\<dots> = rendered_pairs names vals"
    by (simp add: rendered_pairs_def comp_def case_prod_unfold)
  finally show ?thesis .
qed

text \<open>
  Claim C8, as amended. \<^verbatim>\<open>athena_partitions_from_pyarrow_partitions\<close> is a function of
  its arguments alone. On the empty base path it raises IndexError. On any other base
  path it returns the mapping obtained by assigning, for each row of partition values in
  turn, the row to the key made of the base path normalised to end with the separator,
  followed by the \<^verbatim>\<open>key=value\<close> pairs joined by the separator, followed by one more
  separator unless the joined text already ends with one. Every row has one value per
  partition key, and when its last value does not end with the separator the key is the
  normalised base path followed by \<^verbatim>\<open>key1=val1/key2=val2/.../\<close>.
\<close>

theorem partition_paths_rendering:
  "athena_partitions_from_pyarrow_partitions path partitions =
     (if path = [] then Inl IndexError
      else Inr (foldl
                  (\<lambda>d vals. dict_set d
                     (with_separator path @ partition_suffix (map p_name partitions) vals) vals)
                  [] (zip_star (map p_keys partitions)))) \<and>
   (\<forall>vals \<in> set (zip_star (map p_keys partitions)).
      length vals = length partitions \<and>
      (last vals = [] \<or> last (last vals) \<noteq> CHR ''/'' \<longrightarrow>
         partition_suffix (map p_name partitions) vals =
           rendered_pairs (map p_name partitions) vals))"
proof -
  let ?names = "map p_name partitions" and ?rows = "zip_star (map p_keys partitions)"
  have rows: "partitions \<noteq> [] \<and> length vals = length partitions" if "vals \<in> set ?rows" for vals
    using zip_star_row_length [OF that] by simp
  have first: "athena_partitions_from_pyarrow_partitions path partitions =
     (if path = [] then Inl IndexError
      else Inr (foldl (\<lambda>d vals. dict_set d (with_separator path @ partition_suffix ?names vals) vals)
                  [] ?rows))"
  proof (cases "path = []")
    case True
    then show ?thesis
      by (simp add: athena_partitions_from_pyarrow_partitions_def ensure_slash_def)
  next
    case False
    show ?thesis
    proof (cases "?rows = []")
      case True
      with False show ?thesis
        by (simp add: athena_partitions_from_pyarrow_partitions_def ensure_slash_with_separator)
    next
      case nonempty: False
      then obtain vals where "vals \<in> set ?rows" by (cases ?rows) auto
      then have "?names \<noteq> []" using rows by auto
      moreover have "\<forall>vals \<in> set ?rows. vals \<noteq> []" using rows by fastforce
      ultimately show ?thesis
        using False partitions_loop_total [of ?names ?rows "with_separator path" "[]"]
        by (simp add: athena_partitions_from_pyarrow_partitions_def ensure_slash_with_separator)
    qed
  qed
  have second: "length vals = length partitions \<and>
      (last vals = [] \<or> last (last vals) \<noteq> CHR ''/'' \<longrightarrow>
         partition_suffix ?names vals = rendered_pairs ?names vals)"
    if "vals \<in> set ?rows" for vals
  proof -
    from rows [OF that] have l: "length ?names = length vals" "vals \<noteq> []" by auto
    then show ?thesis using partition_suffix_rendered [OF l] by simp
  qed
  from first second show ?thesis by blast
qed

theorem partition_paths_witness:
  "athena_partitions_from_pyarrow_partitions ''s3://bucket/prefix'' parts_example =
     Inr [(''s3://bucket/prefix/name=A/date=2020-01-01/'', [''A'', ''2020-01-01''])] \<and>
   [''A'', ''2020-01-01''] \<in> set (zip_star (map p_keys parts_example)) \<and>
   rendered_pairs (map p_name parts_example) [''A'', ''2020-01-01''] = ''name=A/date=2020-01-01/''"
proof -
  have z: "zip_star (map p_keys parts_example) = [[''A'', ''2020-01-01'']]"
    by (simp add: parts_example_def zip_star.simps)
  have r: "rendered_pairs (map p_name parts_example) [''A'', ''2020-01-01''] = ''name=A/date=2020-01-01/''"
    by (simp add: parts_example_def rendered_pairs_def)
  show ?thesis
    using partition_paths_rendering [of "''s3://bucket/prefix''" parts_example]
    by (simp add: z r with_separator_def)
qed

text \<open>
  Claim C8 as stated fails: a last value that ends with the separator gets no second
  separator, so the key is not the base path followed by \<^verbatim>\<open>key=val/\<close>; and on the empty
  base path no mapping is produced at all.
\<close>

theorem partition_paths_counterexample:
  "athena_partitions_from_pyarrow_partitions ''s3://bucket/prefix''
       [\<lparr>p_name = ''name'', p_keys = [''A/'']\<rparr>] =
     Inr [(''s3://bucket/prefix/name=A/'', [''A/''])] \<and>
   with_separator ''s3://bucket/prefix'' @ rendered_pairs [''name''] [''A/''] =
     ''s3://bucket/prefix/name=A//'' \<and>
   athena_partitions_from_pyarrow_partitions '''' [\<lparr>p_name = ''name'', p_keys = [''A'']\<rparr>] =
     Inl IndexError"
  by (simp add: athena_partitions_from_pyarrow_partitions_def ensure_slash_def zip_star.simps
        with_separator_def rendered_pairs_def)

section \<open>Type-Directed Caster: claims\<close>

lemma sequence_all_Inr:
  "\<forall>x \<in> set xs. f x = Inr (g x) \<Longrightarrow> sequence (map f xs) = Inr (map g xs)"
  by (induction xs) auto

lemma sequence_some_Inl:
  "\<forall>x \<in> set xs. f x = Inr (g x) \<or> f x = Inl e \<Longrightarrow> \<exists>x \<in> set xs. f x = Inl e \<Longrightarrow>
   sequence (map f xs) = Inl e"
proof (induction xs)
  case Nil
  then show ?case by simp
next
  case (Cons x xs)
  show ?case
  proof (cases "f x")
    case (Inl e')
    with Cons.prems(1) show ?thesis by auto
  next
    case (Inr y)
    with Cons.prems have "\<exists>x \<in> set xs. f x = Inl e" by auto
    with Cons have "sequence (map f xs) = Inl e" by simp
    with Inr show ?thesis by simp
  qed
qed










lemma athena2pandas_decimal_prefix:
  "lower t = ''decimal('' @ r \<Longrightarrow> athena2pandas t = Inr ''decimal''"
  by (simp add: athena2pandas_def startswith_def)


lemma decimal_cell_result:
  "(decimal_cell lib \<circ> astype_string lib) c =
     (if decimal_ok lib c then Inr (decimal_result lib c) else Inl InvalidOperation)"
  by (auto simp: decimal_cell_def decimal_ok_def decimal_result_def rendering_def swallowed_def
      simp del: not_None_eq split: option.splits)

lemma decimal_column:
  "cast_column lib ''decimal'' col =
     (if \<forall>c \<in> set col. decimal_ok lib c then Inr (map (decimal_result lib) col)
      else Inl InvalidOperation)"
proof -
  have c: "cast_column lib ''decimal'' col = sequence (map (decimal_cell lib \<circ> astype_string lib) col)"
    by (simp add: cast_column_def)
  show ?thesis
  proof (cases "\<forall>c \<in> set col. decimal_ok lib c")
    case True
    then have "\<forall>c \<in> set col. (decimal_cell lib \<circ> astype_string lib) c = Inr (decimal_result lib c)"
      by (simp only: decimal_cell_result) simp
    from sequence_all_Inr [OF this] True show ?thesis by (simp add: c comp_def)
  next
    case False
    then have ex: "\<exists>c \<in> set col. (decimal_cell lib \<circ> astype_string lib) c = Inl InvalidOperation"
      by (simp only: decimal_cell_result) auto
    have "\<forall>c \<in> set col. (decimal_cell lib \<circ> astype_string lib) c = Inr (decimal_result lib c)
        \<or> (decimal_cell lib \<circ> astype_string lib) c = Inl InvalidOperation"
      by (simp only: decimal_cell_result) auto
    from sequence_some_Inl [OF this ex] False show ?thesis by (simp add: c comp_def)
  qed
qed


lemma plain_decimal_example: "plain_decimal ''1.50'' = Some (150, 2)"
  by (simp add: plain_decimal_def all_digits_def digits_nat_def is_digit_def digit_val_def)

lemma athena2pandas_decimal_10_2: "athena2pandas ''decimal(10,2)'' = Inr ''decimal''"
  by (rule athena2pandas_decimal_prefix [of _ "''10,2)''"])
     (simp add: lower_def lower_char_def)


section \<open>The caster works in place\<close>

lemma set_column_names: "map fst (set_column f col new) = map fst f"
  by (induction f) (auto simp: set_column_def)

lemma set_column_nth:
  "i < length f \<Longrightarrow> fst (f ! i) \<noteq> col \<Longrightarrow> set_column f col new ! i = f ! i"
  by (auto simp: set_column_def split: prod.splits)

lemma set_column_length: "length (set_column f col new) = length f"
  by (simp add: set_column_def)

lemma map_of_set_column_other:
  "c \<noteq> col \<Longrightarrow> map_of (set_column f col new) c = map_of f c"
  by (induction f) (auto simp: set_column_def)

lemma map_of_set_column_same:
  "map_of f col = Some v \<Longrightarrow> map_of (set_column f col new) col = Some new"
  by (induction f) (auto simp: set_column_def split: if_splits)

lemma cast_frame:
  "cast_pandas_with_athena_types lib h df casts = (h', r) \<Longrightarrow>
     (r = Inr df \<or> (\<exists>e. r = Inl e)) \<and>
     (\<forall>b. b \<noteq> df \<longrightarrow> h' b = h b) \<and>
     map fst (h' df) = map fst (h df) \<and>
     (\<forall>c. c \<notin> fst ` set casts \<longrightarrow> map_of (h' df) c = map_of (h df) c) \<and>
     (\<forall>i < length (h df). fst (h df ! i) \<notin> fst ` set casts \<longrightarrow> h' df ! i = h df ! i)"
proof (induction casts arbitrary: h)
  case Nil
  then show ?case by auto
next
  case (Cons cast casts)
  obtain col t where cast: "cast = (col, t)" by (cases cast)
  show ?case
  proof (cases "map_of (h df) col")
    case None
    with Cons.prems have "cast_pandas_with_athena_types lib h df casts = (h', r)"
      by (simp add: cast)
    from Cons.IH [OF this] show ?thesis by (auto simp: cast)
  next
    case (Some vals)
    show ?thesis
    proof (cases "athena2pandas t")
      case (Inl e)
      with Some Cons.prems show ?thesis by (auto simp: cast)
    next
      case (Inr p)
      show ?thesis
      proof (cases "cast_column lib p vals")
        case (Inl e)
        with Some Inr Cons.prems show ?thesis by (auto simp: cast)
      next
        case new: (Inr new)
        let ?h1 = "h(df := set_column (h df) col new)"
        from Some Inr new Cons.prems
        have "cast_pandas_with_athena_types lib ?h1 df casts = (h', r)"
          by (simp add: cast)
        from Cons.IH [OF this]
        have ih: "r = Inr df \<or> (\<exists>e. r = Inl e)"
          "\<forall>b. b \<noteq> df \<longrightarrow> h' b = ?h1 b"
          "map fst (h' df) = map fst (?h1 df)"
          "\<forall>c. c \<notin> fst ` set casts \<longrightarrow> map_of (h' df) c = map_of (?h1 df) c"
          "\<forall>i < length (?h1 df). fst (?h1 df ! i) \<notin> fst ` set casts \<longrightarrow> h' df ! i = ?h1 df ! i"
          by blast+
        have a: "\<forall>b. b \<noteq> df \<longrightarrow> h' b = h b" using ih(2) by simp
        have b: "map fst (h' df) = map fst (h df)" using ih(3) by (simp add: set_column_names)
        have c: "\<forall>c. c \<notin> fst ` set (cast # casts) \<longrightarrow> map_of (h' df) c = map_of (h df) c"
          using ih(4) by (auto simp: cast map_of_set_column_other)
        have d: "\<forall>i < length (h df). fst (h df ! i) \<notin> fst ` set (cast # casts) \<longrightarrow>
            h' df ! i = h df ! i"
        proof (intro allI impI)
          fix i assume i: "i < length (h df)" and n: "fst (h df ! i) \<notin> fst ` set (cast # casts)"
          then have ne: "fst (h df ! i) \<noteq> col" by (simp add: cast)
          then have same: "set_column (h df) col new ! i = h df ! i"
            using i by (simp add: set_column_nth)
          with ih(5) i n show "h' df ! i = h df ! i"
            by (simp add: set_column_length)
        qed
        from ih(1) a b c d show ?thesis by blast
      qed
    qed
  qed
qed

lemma cast_skips_absent:
  "c \<notin> fst ` set (h df) \<Longrightarrow>
   cast_pandas_with_athena_types lib h df (pre @ (c, t) # post) =
   cast_pandas_with_athena_types lib h df (pre @ post)"
proof (induction pre arbitrary: h)
  case Nil
  then have "map_of (h df) c = None" by (simp add: map_of_eq_None_iff)
  then show ?case by simp
next
  case (Cons cast pre)
  obtain col t' where cast: "cast = (col, t')" by (cases cast)
  show ?case
  proof (cases "map_of (h df) col")
    case None
    with Cons.IH [of h, OF Cons.prems] show ?thesis by (simp add: cast)
  next
    case (Some vals0)
    show ?thesis
    proof (cases "athena2pandas t'")
      case (Inl e)
      with Some show ?thesis by (simp add: cast)
    next
      case (Inr p)
      show ?thesis
      proof (cases "cast_column lib p vals0")
        case (Inl e)
        with Some Inr show ?thesis by (simp add: cast)
      next
        case new: (Inr new)
        let ?h1 = "h(df := set_column (h df) col new)"
        have "fst ` set (?h1 df) = fst ` set (h df)"
          using set_column_names [of "h df" col new] by (metis fun_upd_same set_map)
        with Cons.prems have "c \<notin> fst ` set (?h1 df)" by simp
        then have ih: "cast_pandas_with_athena_types lib ?h1 df (pre @ (c, t) # post) =
            cast_pandas_with_athena_types lib ?h1 df (pre @ post)"
          by (rule Cons.IH [of ?h1])
        have step: "cast_pandas_with_athena_types lib h df ((col, t') # xs) =
            cast_pandas_with_athena_types lib ?h1 df xs" for xs
          using Some Inr new by simp
        show ?thesis by (simp only: cast append_Cons step ih)
      qed
    qed
  qed
qed

lemma cast_reflected:
  "cast_pandas_with_athena_types lib h df casts = (h', Inr df) \<Longrightarrow>
   distinct (map fst casts) \<Longrightarrow> (c, t) \<in> set casts \<Longrightarrow> map_of (h df) c = Some vals \<Longrightarrow>
   \<exists>p new. athena2pandas t = Inr p \<and> cast_column lib p vals = Inr new \<and>
           map_of (h' df) c = Some new"
proof (induction casts arbitrary: h)
  case Nil
  then show ?case by simp
next
  case (Cons cast casts)
  obtain col t' where cast: "cast = (col, t')" by (cases cast)
  show ?case
  proof (cases "map_of (h df) col")
    case None
    with Cons.prems(1) have run: "cast_pandas_with_athena_types lib h df casts = (h', Inr df)"
      by (simp add: cast)
    from None Cons.prems(4) have "c \<noteq> col" by auto
    with Cons.prems(3) have "(c, t) \<in> set casts" by (simp add: cast)
    with Cons.IH [OF run] Cons.prems(2,4) show ?thesis by simp
  next
    case (Some vals0)
    with Cons.prems(1) obtain p new where p: "athena2pandas t' = Inr p"
      and new: "cast_column lib p vals0 = Inr new"
      and run: "cast_pandas_with_athena_types lib (h(df := set_column (h df) col new)) df casts
                  = (h', Inr df)"
      by (auto simp: cast split: sum.splits)
    let ?h1 = "h(df := set_column (h df) col new)"
    show ?thesis
    proof (cases "c = col")
      case True
      with Cons.prems(2,3) have "t = t'"
        by (auto simp: cast) (metis fst_conv image_eqI)
      from True Cons.prems(2) have "c \<notin> fst ` set casts" by (simp add: cast)
      with cast_frame [OF run] have "map_of (h' df) c = map_of (?h1 df) c" by blast
      also have "\<dots> = Some new"
        using Some True by (simp add: map_of_set_column_same)
      finally show ?thesis
        using p new Some True Cons.prems(4) \<open>t = t'\<close> by auto
    next
      case False
      with Cons.prems(3) have mem: "(c, t) \<in> set casts" by (simp add: cast)
      have "map_of (?h1 df) c = Some vals"
        using False Cons.prems(4) by (simp add: map_of_set_column_other)
      with Cons.IH [OF run _ mem] Cons.prems(2) show ?thesis by simp
    qed
  qed
qed

text \<open>
  Claim C10. \<^verbatim>\<open>cast_pandas_with_athena_types\<close> returns the reference it was given, not a
  copy, unless it raises, and works on the caller's dataframe in place: no other object
  of the heap changes, the dataframe keeps its column labels in their order, and every
  column that no override names keeps its content at its position. An override whose
  name is not among the dataframe's columns has no effect at all: the call behaves as
  without it. When the call returns, and the override names are pairwise distinct as
  the keys of a mapping are, every column that an override names holds the cast of its
  former content, so the caller's table reflects the casts.
\<close>

theorem cast_in_place_same_object:
  assumes "cast_pandas_with_athena_types lib h df cast_columns = (h', r)"
  shows "(r = Inr df \<or> (\<exists>e. r = Inl e)) \<and>
     (\<forall>b. b \<noteq> df \<longrightarrow> h' b = h b) \<and>
     map fst (h' df) = map fst (h df) \<and>
     (\<forall>c. c \<notin> fst ` set cast_columns \<longrightarrow> map_of (h' df) c = map_of (h df) c) \<and>
     (\<forall>i < length (h df).
        fst (h df ! i) \<notin> fst ` set cast_columns \<longrightarrow> h' df ! i = h df ! i) \<and>
     (\<forall>pre c t post.
        cast_columns = pre @ (c, t) # post \<and> c \<notin> fst ` set (h df) \<longrightarrow>
          cast_pandas_with_athena_types lib h df (pre @ post) = (h', r)) \<and>
     (r = Inr df \<and> distinct (map fst cast_columns) \<longrightarrow>
        (\<forall>c t vals.
           (c, t) \<in> set cast_columns \<and> map_of (h df) c = Some vals \<longrightarrow>
             (\<exists>p new. athena2pandas t = Inr p \<and> cast_column lib p vals = Inr new \<and>
                      map_of (h' df) c = Some new)))"
proof -
  have skip: "cast_pandas_with_athena_types lib h df (pre @ post) = (h', r)"
    if "cast_columns = pre @ (c, t) # post" "c \<notin> fst ` set (h df)" for pre c t post
    using cast_skips_absent [of c h df lib pre t post] assms that by simp
  have refl: "\<exists>p new. athena2pandas t = Inr p \<and> cast_column lib p vals = Inr new \<and>
                      map_of (h' df) c = Some new"
    if "r = Inr df" "distinct (map fst cast_columns)" "(c, t) \<in> set cast_columns"
      "map_of (h df) c = Some vals" for c t vals
    using cast_reflected [of lib h df cast_columns h' c t vals] assms that by simp
  from cast_frame [OF assms] skip refl show ?thesis by blast
qed

lemma example_amt_cast:
  "cast_column example_library ''decimal'' [Str ''1.50'', Str '''', Str ''none''] =
     Inr [Decimal (150, 2), PyNone, PyNone]"
proof -
  have ok: "decimal_ok example_library (Str ''1.50'')" "decimal_ok example_library (Str '''')"
    "decimal_ok example_library (Str ''none'')"
    by (simp_all add: decimal_ok_def rendering_def swallowed_def example_library_def
          plain_decimal_example)
  have r: "decimal_result example_library (Str ''1.50'') = Decimal (150, 2)"
    "decimal_result example_library (Str '''') = PyNone"
    "decimal_result example_library (Str ''none'') = PyNone"
    by (simp_all add: decimal_result_def rendering_def swallowed_def example_library_def
          plain_decimal_example)
  show ?thesis by (simp add: decimal_column ok r)
qed

theorem cast_in_place_witness:
  "cast_pandas_with_athena_types example_library (\<lambda>_. example_frame) 0
       [(''amt'', ''decimal(10,2)''), (''zz'', ''int'')] =
     ((\<lambda>_. example_frame)
        (0 := [(''id'', [Str ''1'', Str ''2'', Str ''3'']),
               (''amt'', [Decimal (150, 2), PyNone, PyNone]),
               (''d'', [Str ''2020-01-01 10:30:00'', PyNone, Str ''2020-02-29''])]),
      Inr 0) \<and>
   map fst
     (((\<lambda>_. example_frame)
        (0 := [(''id'', [Str ''1'', Str ''2'', Str ''3'']),
               (''amt'', [Decimal (150, 2), PyNone, PyNone]),
               (''d'', [Str ''2020-01-01 10:30:00'', PyNone, Str ''2020-02-29''])])) (0::nat)) =
     map fst example_frame"
proof -
  let ?h' = "(\<lambda>_. example_frame)
        ((0::nat) := [(''id'', [Str ''1'', Str ''2'', Str ''3'']),
               (''amt'', [Decimal (150, 2), PyNone, PyNone]),
               (''d'', [Str ''2020-01-01 10:30:00'', PyNone, Str ''2020-02-29''])])"
  have e: "cast_pandas_with_athena_types example_library (\<lambda>_. example_frame) 0
       [(''amt'', ''decimal(10,2)''), (''zz'', ''int'')] = (?h', Inr 0)"
    by (simp add: example_frame_def athena2pandas_decimal_10_2 set_column_def
          example_amt_cast [unfolded example_frame_def])
  from cast_in_place_same_object [OF e]
  have "map fst (?h' 0) = map fst ((\<lambda>_. example_frame) (0::nat))" by blast
  with e show ?thesis by simp
qed

end
